theory Spec2Isabelle
  imports Main
begin

section \<open>Memory: typed heaps and smart pointers\<close>

text \<open>
  The library in \<^verbatim>\<open>include/ftl/memory.h\<close> gives \<^verbatim>\<open>std::shared_ptr<T>\<close> and
  \<^verbatim>\<open>std::unique_ptr<T>\<close> the monoid, monoidA, monad and foldable instances. Its
  functions allocate objects, overwrite objects in place and null out pointers they
  move from, so the embedding passes the memory explicitly.

  All objects of one pointee type \<open>T\<close> live in one typed heap, a list of cells; an
  address is an index into it. A smart pointer of either kind is \<open>nullptr\<close> or the
  address of the object it owns (for the shared kind: co-owns; two shared pointers with
  the same address share the object). Allocation (\<^verbatim>\<open>new T(v)\<close>,
  \<^verbatim>\<open>std::make_shared<T>(v)\<close>) appends a cell, so the address it returns is never
  one that was in use. Nothing in the file frees a cell.
\<close>

datatype ptr = nullptr | Addr nat

type_synonym 'a heap = "'a list"

text \<open>\<^verbatim>\<open>new T(v)\<close> / \<^verbatim>\<open>std::make_shared<T>(v)\<close>: the fresh address and the grown heap.\<close>

definition new :: "'a heap \<Rightarrow> 'a \<Rightarrow> ptr \<times> 'a heap" where
  "new h v = (Addr (length h), h @ [v])"

text \<open>
  \<^verbatim>\<open>*p\<close>: the object a non-null pointer refers to. Dereferencing \<open>nullptr\<close> is
  undefined in C++ and has no equation here; every function below tests the pointer
  first, as the source does.
\<close>

fun star :: "'a heap \<Rightarrow> ptr \<Rightarrow> 'a" where
  "star h (Addr i) = h ! i"

text \<open>\<^verbatim>\<open>*p = v\<close>: overwrite the object in place.\<close>

fun assign :: "'a heap \<Rightarrow> ptr \<Rightarrow> 'a \<Rightarrow> 'a heap" where
  "assign h (Addr i) v = h[i := v]"

text \<open>
  The smart-pointer invariant: a non-null pointer refers to an allocated object.
  \<open>deref\<close> reads a pointer as the optional value it stands for: empty, or holding
  the object's value.
\<close>

fun live :: "'a heap \<Rightarrow> ptr \<Rightarrow> bool" where
  "live h nullptr = True"
| "live h (Addr i) = (i < length h)"

fun deref :: "'a heap \<Rightarrow> ptr \<Rightarrow> 'a option" where
  "deref h nullptr = None"
| "deref h (Addr i) = (if i < length h then Some (h ! i) else None)"

text \<open>
  Exclusive ownership: two distinct \<^verbatim>\<open>unique_ptr\<close> variables never own the same
  object (both may be empty).
\<close>

definition apart :: "ptr \<Rightarrow> ptr \<Rightarrow> bool" where
  "apart a b = (a = nullptr \<or> a \<noteq> b)"

section \<open>Monoid instance for \<^verbatim>\<open>shared_ptr\<close>\<close>

text \<open>
  \<^verbatim>\<open>monoid<T>::append\<close> is declared in \<^verbatim>\<open>concepts/monoid.h\<close>; it is the parameter
  \<open>app\<close> of every append below. The two arguments of the shared append are passed by
  value, so the caller's own pointers are untouched; \<^verbatim>\<open>return std::move(a)\<close> hands
  back the address the parameter holds.
\<close>

definition shared_id :: ptr where
  "shared_id = nullptr"

definition shared_append :: "('a \<Rightarrow> 'a \<Rightarrow> 'a) \<Rightarrow> 'a heap \<Rightarrow> ptr \<Rightarrow> ptr \<Rightarrow> ptr \<times> 'a heap" where
  "shared_append app h a b =
     (if a \<noteq> nullptr \<and> b \<noteq> nullptr then new h (app (star h a) (star h b))
      else if a \<noteq> nullptr then (a, h)
      else (b, h))"

text \<open>
  The earlier revision of the header (\<^verbatim>\<open>unnamed/part_000\<close>) writes the same append
  with nested tests and an explicit empty pointer in the last branch.
\<close>

definition shared_append_nested :: "('a \<Rightarrow> 'a \<Rightarrow> 'a) \<Rightarrow> 'a heap \<Rightarrow> ptr \<Rightarrow> ptr \<Rightarrow> ptr \<times> 'a heap" where
  "shared_append_nested app h a b =
     (if a \<noteq> nullptr then
        (if b \<noteq> nullptr then new h (app (star h a) (star h b)) else (a, h))
      else
        (if b \<noteq> nullptr then (b, h) else (nullptr, h)))"

section \<open>Monoid instance for \<^verbatim>\<open>unique_ptr\<close>\<close>

text \<open>
  The exclusive functions take their pointers by reference. An argument passed as
  \<^verbatim>\<open>const std::unique_ptr<T>&\<close> is borrowed; one passed as \<^verbatim>\<open>std::unique_ptr<T>&&\<close>
  is given up by the caller, and \<^verbatim>\<open>return std::move(a)\<close> leaves the caller's
  variable \<open>a\<close> null. The result of a call is therefore the returned pointer, the
  caller's argument variables after the call, and the heap after the call.
\<close>

record 'a out1 =
  ret :: ptr
  arg_a :: ptr
  mem :: "'a heap"

record 'a out2 = "'a out1" +
  arg_b :: ptr

definition returning :: "ptr \<times> 'a heap \<Rightarrow> ptr \<Rightarrow> ptr \<Rightarrow> 'a out2" where
  "returning rh a' b' = \<lparr>ret = fst rh, arg_a = a', mem = snd rh, arg_b = b'\<rparr>"

text \<open>
  \<^verbatim>\<open>return std::move(a)\<close> nulls the variable \<open>a\<close> is bound to. The other parameter
  is bound to a different variable, which keeps its pointer, unless the caller bound both
  references to one variable, as in \<^verbatim>\<open>append(std::move(p), p)\<close>: then the other
  parameter reads null as well. Distinct exclusive owners never hold the same address, so
  the two parameters are one variable exactly when they hold the same non-null address.
  \<open>after_move moved other\<close> is what the other parameter holds once \<open>moved\<close> has been
  moved from.
\<close>

definition after_move :: "ptr \<Rightarrow> ptr \<Rightarrow> ptr" where
  "after_move moved other = (if other = moved then nullptr else other)"

text \<open>
  \<^verbatim>\<open>std::move(*p)\<close> handed to a by-value parameter moves the pointee's value out and
  leaves the object in its moved-from state. What that state is belongs to the pointee
  type (an \<^verbatim>\<open>int\<close> keeps its value, a \<^verbatim>\<open>std::unique_ptr\<close> becomes null); it is the
  parameter \<open>mv\<close> of every function that moves from a pointee. When both references
  of an append are bound to one variable, the value that is combined depends on how the
  pointee type's append takes its parameters; the statements about values below are for
  distinct owners.
\<close>

definition unique_id :: ptr where
  "unique_id = nullptr"

definition make :: "'a heap \<Rightarrow> 'a \<Rightarrow> ptr \<times> 'a heap" where
  "make h v = new h v"

definition dup :: "'a heap \<Rightarrow> ptr \<Rightarrow> ptr \<times> 'a heap" where
  "dup h p = make h (star h p)"

text \<open>\<^verbatim>\<open>append(const unique_ptr<T>& a, const unique_ptr<T>& b)\<close>\<close>

definition unique_append_ll :: "('a \<Rightarrow> 'a \<Rightarrow> 'a) \<Rightarrow> 'a heap \<Rightarrow> ptr \<Rightarrow> ptr \<Rightarrow> 'a out2" where
  "unique_append_ll app h a b =
     (if a \<noteq> nullptr \<and> b \<noteq> nullptr then returning (make h (app (star h a) (star h b))) a b
      else if a \<noteq> nullptr then returning (dup h a) a b
      else if b \<noteq> nullptr then returning (dup h b) a b
      else returning (unique_id, h) a b)"

text \<open>
  \<^verbatim>\<open>append(unique_ptr<T>&& a, const unique_ptr<T>& b)\<close>: with both present,
  \<^verbatim>\<open>*a = monoid<T>::append(std::move(*a), *b); return std::move(a);\<close>
\<close>

definition unique_append_rl ::
  "('a \<Rightarrow> 'a \<Rightarrow> 'a) \<Rightarrow> ('a \<Rightarrow> 'a) \<Rightarrow> 'a heap \<Rightarrow> ptr \<Rightarrow> ptr \<Rightarrow> 'a out2" where
  "unique_append_rl app mv h a b =
     (if a \<noteq> nullptr \<and> b \<noteq> nullptr then
        (let x = star h a; y = star h b;
             h1 = assign h a (mv x)
         in returning (a, assign h1 a (app x y)) nullptr (after_move a b))
      else if b \<noteq> nullptr then returning (dup h b) a b
      else returning (a, h) nullptr (after_move a b))"

text \<open>
  \<^verbatim>\<open>append(const unique_ptr<T>& a, unique_ptr<T>&& b)\<close>: with both present,
  \<^verbatim>\<open>*b = monoid<T>::append(*a, std::move(*b)); return std::move(b);\<close>
\<close>

definition unique_append_lr ::
  "('a \<Rightarrow> 'a \<Rightarrow> 'a) \<Rightarrow> ('a \<Rightarrow> 'a) \<Rightarrow> 'a heap \<Rightarrow> ptr \<Rightarrow> ptr \<Rightarrow> 'a out2" where
  "unique_append_lr app mv h a b =
     (if a \<noteq> nullptr \<and> b \<noteq> nullptr then
        (let x = star h a; y = star h b;
             h1 = assign h b (mv y)
         in returning (b, assign h1 b (app x y)) (after_move b a) nullptr)
      else if a \<noteq> nullptr then returning (dup h a) a b
      else returning (b, h) (after_move b a) nullptr)"

text \<open>
  \<^verbatim>\<open>append(unique_ptr<T>&& a, unique_ptr<T>&& b)\<close>: with both present,
  \<^verbatim>\<open>*a = monoid<T>::append(std::move(*a), std::move(*b)); return std::move(a);\<close>
  The pointer \<open>b\<close> itself is not moved from in that branch: only its pointee is.
\<close>

definition unique_append_rr ::
  "('a \<Rightarrow> 'a \<Rightarrow> 'a) \<Rightarrow> ('a \<Rightarrow> 'a) \<Rightarrow> 'a heap \<Rightarrow> ptr \<Rightarrow> ptr \<Rightarrow> 'a out2" where
  "unique_append_rr app mv h a b =
     (if a \<noteq> nullptr \<and> b \<noteq> nullptr then
        (let x = star h a; y = star h b;
             h1 = assign (assign h a (mv x)) b (mv y)
         in returning (a, assign h1 a (app x y)) nullptr (after_move a b))
      else if a \<noteq> nullptr then returning (a, h) nullptr (after_move a b)
      else returning (b, h) (after_move b a) nullptr)"

section \<open>Monad instances\<close>

text \<open>
  \<open>map\<close> reads a \<open>T\<close> object and allocates a \<open>U\<close> object, so it works on the pair of
  the two typed heaps; instantiated with \<open>U = T\<close> it reads and allocates in the one heap
  (\<open>shared_map_same\<close>, \<open>unique_map_l_same\<close>). \<open>bind\<close> reads a \<open>T\<close> object and then
  runs the caller's function, which may allocate and write anywhere: its state is the
  \<open>T\<close> heap together with the rest of the memory, and the function it is given is a
  transformer of that state returning a pointer.
\<close>

definition shared_pure :: "'a heap \<Rightarrow> 'a \<Rightarrow> ptr \<times> 'a heap" where
  "shared_pure h a = new h a"

definition shared_map :: "('a \<Rightarrow> 'b) \<Rightarrow> ptr \<Rightarrow> 'a heap \<times> 'b heap \<Rightarrow> ptr \<times> ('a heap \<times> 'b heap)" where
  "shared_map f p s =
     (if p \<noteq> nullptr then
        (let (r, hU) = new (snd s) (f (star (fst s) p)) in (r, (fst s, hU)))
      else (nullptr, s))"

definition shared_map_same :: "('a \<Rightarrow> 'a) \<Rightarrow> ptr \<Rightarrow> 'a heap \<Rightarrow> ptr \<times> 'a heap" where
  "shared_map_same f p h =
     (if p \<noteq> nullptr then new h (f (star h p))
      else (nullptr, h))"

definition shared_bind ::
  "ptr \<Rightarrow> ('a \<Rightarrow> 'a heap \<times> 'w \<Rightarrow> ptr \<times> ('a heap \<times> 'w)) \<Rightarrow> 'a heap \<times> 'w \<Rightarrow> ptr \<times> ('a heap \<times> 'w)" where
  "shared_bind a f s =
     (if a \<noteq> nullptr then f (star (fst s) a) s
      else (nullptr, s))"

definition unique_pure :: "'a heap \<Rightarrow> 'a \<Rightarrow> ptr \<times> 'a heap" where
  "unique_pure h a = new h a"

text \<open>
  \<^verbatim>\<open>map(F f, const unique_ptr<T>& p)\<close>: \<^verbatim>\<open>new U(f(std::move(*p)))\<close>. The pointer is
  borrowed and stays as it is; its pointee is moved from.
\<close>

definition unique_map_l ::
  "('a \<Rightarrow> 'a) \<Rightarrow> ('a \<Rightarrow> 'b) \<Rightarrow> ptr \<Rightarrow> 'a heap \<times> 'b heap \<Rightarrow> ptr \<times> ('a heap \<times> 'b heap)" where
  "unique_map_l mv f p s =
     (if p \<noteq> nullptr then
        (let x = star (fst s) p;
             hT = assign (fst s) p (mv x);
             (r, hU) = new (snd s) (f x)
         in (r, (hT, hU)))
      else (nullptr, s))"

definition unique_map_l_same :: "('a \<Rightarrow> 'a) \<Rightarrow> ('a \<Rightarrow> 'a) \<Rightarrow> ptr \<Rightarrow> 'a heap \<Rightarrow> ptr \<times> 'a heap" where
  "unique_map_l_same mv f p h =
     (if p \<noteq> nullptr then
        (let x = star h p;
             h1 = assign h p (mv x)
         in new h1 (f x))
      else (nullptr, h))"

text \<open>
  \<^verbatim>\<open>map(F f, unique_ptr<T>&& p)\<close>, enabled only when \<open>f\<close> maps \<open>T\<close> to \<open>T\<close>:
  \<^verbatim>\<open>if(p) *p = f(std::move(*p)); return std::move(p);\<close>
\<close>

definition unique_map_r :: "('a \<Rightarrow> 'a) \<Rightarrow> ('a \<Rightarrow> 'a) \<Rightarrow> 'a heap \<Rightarrow> ptr \<Rightarrow> 'a out1" where
  "unique_map_r mv f h p =
     (let h' = (if p \<noteq> nullptr then
                  (let x = star h p in assign (assign h p (mv x)) p (f x))
                else h)
      in \<lparr>ret = p, arg_a = nullptr, mem = h'\<rparr>)"

text \<open>\<^verbatim>\<open>bind(const unique_ptr<T>& a, F f)\<close>: \<^verbatim>\<open>if(a) return f(std::move(*a));\<close>\<close>

definition unique_bind ::
  "('a \<Rightarrow> 'a) \<Rightarrow> ptr \<Rightarrow> ('a \<Rightarrow> 'a heap \<times> 'w \<Rightarrow> ptr \<times> ('a heap \<times> 'w)) \<Rightarrow> 'a heap \<times> 'w
     \<Rightarrow> ptr \<times> ('a heap \<times> 'w)" where
  "unique_bind mv a f s =
     (if a \<noteq> nullptr then
        (let x = star (fst s) a in f x (assign (fst s) a (mv x), snd s))
      else (nullptr, s))"

section \<open>MonoidA instances\<close>

definition shared_fail :: ptr where
  "shared_fail = nullptr"

definition shared_orDo :: "'a heap \<Rightarrow> ptr \<Rightarrow> ptr \<Rightarrow> ptr \<times> 'a heap" where
  "shared_orDo h a b = (if a \<noteq> nullptr then (a, h) else (b, h))"

definition dup_unique :: "'a heap \<Rightarrow> ptr \<Rightarrow> ptr \<times> 'a heap" where
  "dup_unique h p = (if p \<noteq> nullptr then new h (star h p) else (nullptr, h))"

definition unique_fail :: ptr where
  "unique_fail = nullptr"

definition unique_orDo :: "'a heap \<Rightarrow> ptr \<Rightarrow> ptr \<Rightarrow> ptr \<times> 'a heap" where
  "unique_orDo h a b = (if a \<noteq> nullptr then dup_unique h a else dup_unique h b)"

section \<open>Foldable instances\<close>

text \<open>
  Both folds of both kinds call \<^verbatim>\<open>fn(std::forward<U>(z), *p)\<close>: the seed first, the
  pointee second.
\<close>

definition shared_foldl :: "('u \<Rightarrow> 'a \<Rightarrow> 'u) \<Rightarrow> 'u \<Rightarrow> 'a heap \<Rightarrow> ptr \<Rightarrow> 'u" where
  "shared_foldl fn z h p = (if p \<noteq> nullptr then fn z (star h p) else z)"

definition shared_foldr :: "('u \<Rightarrow> 'a \<Rightarrow> 'u) \<Rightarrow> 'u \<Rightarrow> 'a heap \<Rightarrow> ptr \<Rightarrow> 'u" where
  "shared_foldr fn z h p = (if p \<noteq> nullptr then fn z (star h p) else z)"

definition unique_foldl :: "('u \<Rightarrow> 'a \<Rightarrow> 'u) \<Rightarrow> 'u \<Rightarrow> 'a heap \<Rightarrow> ptr \<Rightarrow> 'u" where
  "unique_foldl fn z h p = (if p \<noteq> nullptr then fn z (star h p) else z)"

definition unique_foldr :: "('u \<Rightarrow> 'a \<Rightarrow> 'u) \<Rightarrow> 'u \<Rightarrow> 'a heap \<Rightarrow> ptr \<Rightarrow> 'u" where
  "unique_foldr fn z h p = (if p \<noteq> nullptr then fn z (star h p) else z)"

section \<open>Derived monad operations\<close>

text \<open>
  Modelled from the spec: \<^verbatim>\<open>deriving_join\<close> and \<^verbatim>\<open>deriving_apply\<close>, which both monad
  instances inherit, are declared in \<^verbatim>\<open>concepts/monad.h\<close>, which is not among the
  sources. The spec gives them: \<^verbatim>\<open>join(outer)\<close> is \<^verbatim>\<open>bind(outer, identity)\<close> and
  \<^verbatim>\<open>apply(wrapped_fn, wrapped_arg)\<close> is
  \<^verbatim>\<open>bind(wrapped_fn, \fn -> map(fn, wrapped_arg))\<close>, for both kinds without
  kind-specific overrides. The \<open>bind\<close> and \<open>map\<close> they are built from are the ones of
  \<^verbatim>\<open>memory.h\<close> above.

  For \<open>join\<close> the outer pointer refers to a cell that holds the inner pointer, so
  \<open>bind\<close> runs on the heap of pointer cells; \<open>identity\<close> returns its argument and
  leaves the memory alone. A moved-from \<^verbatim>\<open>unique_ptr\<close> is null. For \<open>apply\<close> the
  wrapped function lives in a heap of function objects, and the exclusive instance maps
  over the borrowed argument.
\<close>

definition identity :: "ptr \<Rightarrow> 's \<Rightarrow> ptr \<times> 's" where
  "identity p s = (p, s)"

definition moved_from_unique :: "ptr \<Rightarrow> ptr" where
  "moved_from_unique p = nullptr"

definition shared_join :: "ptr \<Rightarrow> ptr heap \<times> 'w \<Rightarrow> ptr \<times> (ptr heap \<times> 'w)" where
  "shared_join outer s = shared_bind outer identity s"

definition unique_join :: "ptr \<Rightarrow> ptr heap \<times> 'w \<Rightarrow> ptr \<times> (ptr heap \<times> 'w)" where
  "unique_join outer s = unique_bind moved_from_unique outer identity s"

definition shared_apply ::
  "ptr \<Rightarrow> ptr \<Rightarrow> ('a \<Rightarrow> 'b) heap \<times> ('a heap \<times> 'b heap)
     \<Rightarrow> ptr \<times> (('a \<Rightarrow> 'b) heap \<times> ('a heap \<times> 'b heap))" where
  "shared_apply wrapped_fn wrapped_arg s =
     shared_bind wrapped_fn
       (\<lambda>fn s'. (let (r, w) = shared_map fn wrapped_arg (snd s') in (r, (fst s', w)))) s"

definition unique_apply ::
  "(('a \<Rightarrow> 'b) \<Rightarrow> ('a \<Rightarrow> 'b)) \<Rightarrow> ('a \<Rightarrow> 'a) \<Rightarrow> ptr \<Rightarrow> ptr
     \<Rightarrow> ('a \<Rightarrow> 'b) heap \<times> ('a heap \<times> 'b heap)
     \<Rightarrow> ptr \<times> (('a \<Rightarrow> 'b) heap \<times> ('a heap \<times> 'b heap))" where
  "unique_apply mvF mv wrapped_fn wrapped_arg s =
     unique_bind mvF wrapped_fn
       (\<lambda>fn s'. (let (r, w) = unique_map_l mv fn wrapped_arg (snd s') in (r, (fst s', w)))) s"

section \<open>Overload resolution of the exclusive append\<close>

text \<open>
  The four exclusive overloads differ only in the reference kinds of their parameters,
  so the compiler picks one by the value category of each argument expression: a named
  pointer is an lvalue and binds to \<^verbatim>\<open>const&\<close>; \<^verbatim>\<open>std::move(p)\<close> or the result of
  another call is an rvalue and binds to \<^verbatim>\<open>&&\<close>.
\<close>

datatype cat = Lvalue | Rvalue

fun unique_append ::
  "cat \<Rightarrow> cat \<Rightarrow> ('a \<Rightarrow> 'a \<Rightarrow> 'a) \<Rightarrow> ('a \<Rightarrow> 'a) \<Rightarrow> 'a heap \<Rightarrow> ptr \<Rightarrow> ptr \<Rightarrow> 'a out2" where
  "unique_append Lvalue Lvalue app mv h a b = unique_append_ll app h a b"
| "unique_append Rvalue Lvalue app mv h a b = unique_append_rl app mv h a b"
| "unique_append Lvalue Rvalue app mv h a b = unique_append_lr app mv h a b"
| "unique_append Rvalue Rvalue app mv h a b = unique_append_rr app mv h a b"

section \<open>Reading results as optional values\<close>

text \<open>The optional value a returned pointer stands for, in the heap returned with it.\<close>

definition pointee :: "ptr \<times> 'a heap \<Rightarrow> 'a option" where
  "pointee r = deref (snd r) (fst r)"

definition held :: "('a, 'z) out1_scheme \<Rightarrow> 'a option" where
  "held r = deref (mem r) (ret r)"

text \<open>
  The decision table of the monoid contract, in the spec's words: empty with empty is
  empty; a value with empty, or empty with a value, is that value; two values are
  combined by the pointee type's append.
\<close>

fun opt_append :: "('a \<Rightarrow> 'a \<Rightarrow> 'a) \<Rightarrow> 'a option \<Rightarrow> 'a option \<Rightarrow> 'a option" where
  "opt_append app None None = None"
| "opt_append app (Some x) None = Some x"
| "opt_append app None (Some y) = Some y"
| "opt_append app (Some x) (Some y) = Some (app x y)"

section \<open>Basic facts\<close>

lemmas unique_append_defs =
  unique_append_ll_def unique_append_rl_def unique_append_lr_def unique_append_rr_def
  returning_def after_move_def make_def dup_def new_def unique_id_def Let_def

lemma apart_sym: "apart a b \<Longrightarrow> apart b a"
  by (auto simp: apart_def)

lemma opt_append_assoc:
  assumes "\<And>x y z. app (app x y) z = app x (app y z)"
  shows "opt_append app (opt_append app u v) w = opt_append app u (opt_append app v w)"
  by (cases u; cases v; cases w) (simp_all add: assms)

subsection \<open>The shared append, read as optional values\<close>

lemma pointee_shared_append:
  "live h a \<Longrightarrow> live h b \<Longrightarrow>
   pointee (shared_append app h a b) = opt_append app (deref h a) (deref h b)"
  by (cases a; cases b) (simp_all add: shared_append_def pointee_def new_def)

lemma pointee_shared_append_nested:
  "live h a \<Longrightarrow> live h b \<Longrightarrow>
   pointee (shared_append_nested app h a b) = opt_append app (deref h a) (deref h b)"
  by (cases a; cases b) (simp_all add: shared_append_nested_def pointee_def new_def)

lemma live_shared_append:
  "live h a \<Longrightarrow> live h b \<Longrightarrow>
   live (snd (shared_append app h a b)) (fst (shared_append app h a b))"
  by (cases a; cases b) (simp_all add: shared_append_def new_def)

lemma frame_shared_append:
  "live h c \<Longrightarrow>
   deref (snd (shared_append app h a b)) c = deref h c \<and>
   live (snd (shared_append app h a b)) c"
  by (cases c) (auto simp add: shared_append_def new_def nth_append)

subsection \<open>The exclusive append, read as optional values\<close>

lemma held_unique_append_ll:
  "live h a \<Longrightarrow> live h b \<Longrightarrow>
   held (unique_append_ll app h a b) = opt_append app (deref h a) (deref h b)"
  by (cases a; cases b) (simp_all add: unique_append_defs held_def)

lemma held_unique_append_rl:
  "live h a \<Longrightarrow> live h b \<Longrightarrow> apart a b \<Longrightarrow>
   held (unique_append_rl app mv h a b) = opt_append app (deref h a) (deref h b)"
  by (cases a; cases b) (simp_all add: unique_append_defs held_def)

lemma held_unique_append_lr:
  "live h a \<Longrightarrow> live h b \<Longrightarrow> apart a b \<Longrightarrow>
   held (unique_append_lr app mv h a b) = opt_append app (deref h a) (deref h b)"
  by (cases a; cases b) (simp_all add: unique_append_defs held_def)

lemma held_unique_append_rr:
  "live h a \<Longrightarrow> live h b \<Longrightarrow> apart a b \<Longrightarrow>
   held (unique_append_rr app mv h a b) = opt_append app (deref h a) (deref h b)"
  by (cases a; cases b) (simp_all add: unique_append_defs held_def apart_def)

lemma held_unique_append:
  "live h a \<Longrightarrow> live h b \<Longrightarrow> apart a b \<Longrightarrow>
   held (unique_append ca cb app mv h a b) = opt_append app (deref h a) (deref h b)"
  by (cases ca; cases cb)
     (simp_all add: held_unique_append_ll held_unique_append_rl held_unique_append_lr
        held_unique_append_rr)

lemma live_unique_append:
  "live h a \<Longrightarrow> live h b \<Longrightarrow>
   live (mem (unique_append ca cb app mv h a b)) (ret (unique_append ca cb app mv h a b))"
  by (cases ca; cases cb; cases a; cases b) (simp_all add: unique_append_defs)

text \<open>
  A third pointer that owns neither argument's object is not disturbed by an exclusive
  append, and the result does not own its object.
\<close>

lemma frame_unique_append:
  "live h a \<Longrightarrow> live h b \<Longrightarrow> live h c \<Longrightarrow> apart c a \<Longrightarrow> apart c b \<Longrightarrow>
   deref (mem (unique_append ca cb app mv h a b)) c = deref h c \<and>
   live (mem (unique_append ca cb app mv h a b)) c \<and>
   apart (ret (unique_append ca cb app mv h a b)) c"
  by (cases ca; cases cb; cases a; cases b; cases c)
     (auto simp add: unique_append_defs apart_def nth_append)

lemma shared_append_assoc:
  assumes assoc: "\<And>x y z. app (app x y) z = app x (app y z)"
    and l: "live h a" "live h b" "live h c"
  shows "pointee (shared_append app (snd (shared_append app h a b))
                    (fst (shared_append app h a b)) c) =
         pointee (shared_append app (snd (shared_append app h b c))
                    a (fst (shared_append app h b c)))"
proof -
  let ?r = "shared_append app h a b"
  let ?q = "shared_append app h b c"
  have fc: "deref (snd ?r) c = deref h c" "live (snd ?r) c"
    using frame_shared_append [OF l(3), of app a b] by simp_all
  have fa: "deref (snd ?q) a = deref h a" "live (snd ?q) a"
    using frame_shared_append [OF l(1), of app b c] by simp_all
  have left: "pointee (shared_append app (snd ?r) (fst ?r) c) =
        opt_append app (pointee ?r) (deref h c)"
    using pointee_shared_append [OF live_shared_append [OF l(1) l(2)] fc(2)] fc(1)
    by (simp add: pointee_def)
  have right: "pointee (shared_append app (snd ?q) a (fst ?q)) =
        opt_append app (deref h a) (pointee ?q)"
    using pointee_shared_append [OF fa(2) live_shared_append [OF l(2) l(3)]] fa(1)
    by (simp add: pointee_def)
  have "opt_append app (opt_append app (deref h a) (deref h b)) (deref h c) =
        opt_append app (deref h a) (opt_append app (deref h b) (deref h c))"
    by (rule opt_append_assoc) (rule assoc)
  then show ?thesis
    by (simp add: left right pointee_shared_append l)
qed

lemma unique_append_assoc:
  assumes assoc: "\<And>x y z. app (app x y) z = app x (app y z)"
    and l: "live h a" "live h b" "live h c"
    and ap: "apart a b" "apart a c" "apart b c"
  shows "held (unique_append Rvalue cc app mv (mem (unique_append ca cb app mv h a b))
                 (ret (unique_append ca cb app mv h a b)) c) =
         held (unique_append ca Rvalue app mv (mem (unique_append cb cc app mv h b c))
                 a (ret (unique_append cb cc app mv h b c)))"
proof -
  have ap': "apart c a" "apart c b"
    using ap by (simp_all add: apart_sym)
  let ?r = "unique_append ca cb app mv h a b"
  let ?q = "unique_append cb cc app mv h b c"
  have fc: "deref (mem ?r) c = deref h c" "live (mem ?r) c" "apart (ret ?r) c"
    using frame_unique_append [OF l(1) l(2) l(3) ap'(1) ap'(2)] by blast+
  have fa: "deref (mem ?q) a = deref h a" "live (mem ?q) a" "apart (ret ?q) a"
    using frame_unique_append [OF l(2) l(3) l(1) ap(1) ap(2)] by blast+
  have left: "held (unique_append Rvalue cc app mv (mem ?r) (ret ?r) c) =
        opt_append app (held ?r) (deref h c)"
    using held_unique_append [OF live_unique_append [OF l(1) l(2)] fc(2) fc(3)] fc(1)
    by (simp add: held_def)
  have right: "held (unique_append ca Rvalue app mv (mem ?q) a (ret ?q)) =
        opt_append app (deref h a) (held ?q)"
    using held_unique_append [OF fa(2) live_unique_append [OF l(2) l(3)] apart_sym [OF fa(3)]]
      fa(1)
    by (simp add: held_def)
  have "opt_append app (opt_append app (deref h a) (deref h b)) (deref h c) =
        opt_append app (deref h a) (opt_append app (deref h b) (deref h c))"
    by (rule opt_append_assoc) (rule assoc)
  then show ?thesis
    by (simp add: left right held_unique_append l ap)
qed

section \<open>The monoid decision table\<close>

text \<open>
  C1. For both ownership kinds, monoid append follows the decision table: two empty
  operands give empty; a non-empty operand with an empty one gives a value holding the
  non-empty side's pointee; two non-empty operands give an owned value holding the
  pointee type's append of the two pointees. The identity is the empty value. This holds
  for the shared append of both revisions of the header and for each of the four
  exclusive overloads, whose by-transfer arguments are distinct owners.
\<close>

theorem append_follows_decision_table:
  "shared_id = nullptr \<and> unique_id = nullptr \<and>
   (live h a \<and> live h b \<longrightarrow>
      pointee (shared_append app h a b) = opt_append app (deref h a) (deref h b) \<and>
      pointee (shared_append_nested app h a b) = opt_append app (deref h a) (deref h b) \<and>
      held (unique_append_ll app h a b) = opt_append app (deref h a) (deref h b)) \<and>
   (live h a \<and> live h b \<and> apart a b \<longrightarrow>
      held (unique_append_rl app mv h a b) = opt_append app (deref h a) (deref h b) \<and>
      held (unique_append_lr app mv h a b) = opt_append app (deref h a) (deref h b) \<and>
      held (unique_append_rr app mv h a b) = opt_append app (deref h a) (deref h b))"
  by (simp add: shared_id_def unique_id_def pointee_shared_append pointee_shared_append_nested
      held_unique_append_ll held_unique_append_rl held_unique_append_lr held_unique_append_rr)

theorem append_follows_decision_table_witness:
  "live [2, 3 :: int] (Addr 0) \<and> live [2, 3 :: int] (Addr 1) \<and> apart (Addr 0) (Addr 1) \<and>
   pointee (shared_append (+) [2, 3 :: int] (Addr 0) (Addr 1)) = Some 5 \<and>
   pointee (shared_append_nested (+) [2, 3 :: int] (Addr 0) (Addr 1)) = Some 5 \<and>
   held (unique_append_ll (+) [2, 3 :: int] (Addr 0) (Addr 1)) = Some 5 \<and>
   held (unique_append_rl (+) id [2, 3 :: int] (Addr 0) (Addr 1)) = Some 5 \<and>
   held (unique_append_lr (+) id [2, 3 :: int] (Addr 0) (Addr 1)) = Some 5 \<and>
   held (unique_append_rr (+) id [2, 3 :: int] (Addr 0) (Addr 1)) = Some 5"
  using append_follows_decision_table [of "[2, 3 :: int]" "Addr 0" "Addr 1" "(+)" id]
  by (simp add: apart_def)

section \<open>Aliasing of the shared append\<close>

text \<open>
  C10. For the shared kind, append with exactly one non-empty operand returns that
  operand's own pointer: the result has the operand's address, so it shares ownership of
  the very same object, and the heap is unchanged (nothing is allocated). Append of two
  empty operands returns the empty pointer, again without touching the heap. Both
  revisions of the header behave so.
\<close>

theorem shared_append_one_sided_aliases:
  "(a \<noteq> nullptr \<longrightarrow>
      shared_append app h a nullptr = (a, h) \<and> shared_append app h nullptr a = (a, h) \<and>
      shared_append_nested app h a nullptr = (a, h) \<and>
      shared_append_nested app h nullptr a = (a, h)) \<and>
   shared_append app h nullptr nullptr = (nullptr, h) \<and>
   shared_append_nested app h nullptr nullptr = (nullptr, h)"
  by (simp add: shared_append_def shared_append_nested_def)

theorem shared_append_one_sided_aliases_witness:
  "Addr 0 \<noteq> nullptr \<and>
   shared_append (+) [2 :: int] (Addr 0) nullptr = (Addr 0, [2]) \<and>
   shared_append (+) [2 :: int] nullptr (Addr 0) = (Addr 0, [2]) \<and>
   shared_append_nested (+) [2 :: int] (Addr 0) nullptr = (Addr 0, [2]) \<and>
   shared_append_nested (+) [2 :: int] nullptr (Addr 0) = (Addr 0, [2]) \<and>
   shared_append (+) [2 :: int] nullptr nullptr = (nullptr, [2]) \<and>
   shared_append_nested (+) [2 :: int] nullptr nullptr = (nullptr, [2])"
  using shared_append_one_sided_aliases [of "Addr 0" "(+)" "[2 :: int]"] by simp

section \<open>The monoid laws\<close>

text \<open>
  C2. For each ownership kind and every combination of empty and non-empty operands,
  append satisfies the monoid laws on the values held: appending the identity on the left
  or on the right gives the operand's value, and
  \<open>append(append(a, b), c)\<close> holds the same value as \<open>append(a, append(b, c))\<close>
  whenever the pointee type's own append is associative. For the exclusive kind this
  holds for every overload the value categories of \<open>a\<close>, \<open>b\<close> and \<open>c\<close> select (the
  result of the inner call is an rvalue), the three pointers being distinct owners.
\<close>

theorem append_monoid_laws:
  "pointee (shared_append app h shared_id x) = deref h x \<and>
   pointee (shared_append app h x shared_id) = deref h x \<and>
   (live h x \<longrightarrow>
      held (unique_append ca cb app mv h unique_id x) = deref h x \<and>
      held (unique_append ca cb app mv h x unique_id) = deref h x) \<and>
   ((\<forall>x y z. app (app x y) z = app x (app y z)) \<and> live h a \<and> live h b \<and> live h c \<longrightarrow>
      pointee (shared_append app (snd (shared_append app h a b))
                 (fst (shared_append app h a b)) c) =
      pointee (shared_append app (snd (shared_append app h b c))
                 a (fst (shared_append app h b c)))) \<and>
   ((\<forall>x y z. app (app x y) z = app x (app y z)) \<and> live h a \<and> live h b \<and> live h c \<and>
    apart a b \<and> apart a c \<and> apart b c \<longrightarrow>
      held (unique_append Rvalue cc app mv (mem (unique_append ca cb app mv h a b))
              (ret (unique_append ca cb app mv h a b)) c) =
      held (unique_append ca Rvalue app mv (mem (unique_append cb cc app mv h b c))
              a (ret (unique_append cb cc app mv h b c))))"
proof -
  have s1: "pointee (shared_append app h shared_id x) = deref h x"
    by (simp add: shared_append_def shared_id_def pointee_def)
  have s2: "pointee (shared_append app h x shared_id) = deref h x"
    by (simp add: shared_append_def shared_id_def pointee_def)
  have u: "held (unique_append ca cb app mv h unique_id x) = deref h x \<and>
           held (unique_append ca cb app mv h x unique_id) = deref h x" if "live h x"
  proof -
    have n: "live h nullptr" "apart nullptr x" "apart x nullptr"
      by (simp_all add: apart_def)
    have "opt_append app None (deref h x) = deref h x"
         "opt_append app (deref h x) None = deref h x"
      by (cases "deref h x"; simp)+
    then show ?thesis
      using that n by (simp add: held_unique_append unique_id_def)
  qed
  show ?thesis
    using s1 s2 u shared_append_assoc [of app h a b c]
      unique_append_assoc [of app h a b c cc mv ca cb]
    by blast
qed

theorem append_monoid_laws_witness:
  "(\<forall>x y z :: int. (x + y) + z = x + (y + z)) \<and>
   live [1, 2, 3 :: int] (Addr 0) \<and> live [1, 2, 3 :: int] (Addr 1) \<and>
   live [1, 2, 3 :: int] (Addr 2) \<and>
   apart (Addr 0) (Addr 1) \<and> apart (Addr 0) (Addr 2) \<and> apart (Addr 1) (Addr 2) \<and>
   held (unique_append Rvalue Lvalue (+) id [1, 2, 3 :: int] unique_id (Addr 1)) = Some 2 \<and>
   held (unique_append Rvalue Lvalue (+) id [1, 2, 3 :: int] (Addr 1) unique_id) = Some 2 \<and>
   pointee (shared_append (+) (snd (shared_append (+) [1, 2, 3 :: int] (Addr 0) (Addr 1)))
              (fst (shared_append (+) [1, 2, 3 :: int] (Addr 0) (Addr 1))) (Addr 2)) = Some 6 \<and>
   pointee (shared_append (+) (snd (shared_append (+) [1, 2, 3 :: int] (Addr 1) (Addr 2)))
              (Addr 0) (fst (shared_append (+) [1, 2, 3 :: int] (Addr 1) (Addr 2)))) = Some 6 \<and>
   held (unique_append Rvalue Rvalue (+) id
           (mem (unique_append Rvalue Lvalue (+) id [1, 2, 3 :: int] (Addr 0) (Addr 1)))
           (ret (unique_append Rvalue Lvalue (+) id [1, 2, 3 :: int] (Addr 0) (Addr 1)))
           (Addr 2)) = Some 6 \<and>
   held (unique_append Rvalue Rvalue (+) id
           (mem (unique_append Lvalue Rvalue (+) id [1, 2, 3 :: int] (Addr 1) (Addr 2)))
           (Addr 0)
           (ret (unique_append Lvalue Rvalue (+) id [1, 2, 3 :: int] (Addr 1) (Addr 2)))) = Some 6"
  using append_monoid_laws [of "(+)" "[1, 2, 3 :: int]" "Addr 1" Rvalue Lvalue id
      "Addr 0" "Addr 1" "Addr 2" Rvalue]
  by (simp add: apart_def unique_append_defs shared_append_def held_def pointee_def)

section \<open>Freshness of the combined shared value\<close>

text \<open>
  C7. For the shared kind, append of two non-empty values holds the pointee type's append
  of the two held values (their sum, for an integer sum monoid). The result is freshly
  allocated: its address was not in use before the call and differs from both inputs'
  addresses, and every object that existed before the call keeps its value. It is
  independent of both inputs: overwriting either input's referent afterwards leaves the
  value the result holds unchanged. Both revisions of the header behave so.
\<close>

theorem shared_append_fresh_and_independent:
  "i < length h \<and> j < length h \<longrightarrow>
     fst (shared_append app h (Addr i) (Addr j)) = Addr (length h) \<and>
     \<not> live h (fst (shared_append app h (Addr i) (Addr j))) \<and>
     fst (shared_append app h (Addr i) (Addr j)) \<noteq> Addr i \<and>
     fst (shared_append app h (Addr i) (Addr j)) \<noteq> Addr j \<and>
     take (length h) (snd (shared_append app h (Addr i) (Addr j))) = h \<and>
     pointee (shared_append app h (Addr i) (Addr j)) = Some (app (h ! i) (h ! j)) \<and>
     deref (assign (snd (shared_append app h (Addr i) (Addr j))) (Addr i) v)
       (fst (shared_append app h (Addr i) (Addr j))) = Some (app (h ! i) (h ! j)) \<and>
     deref (assign (snd (shared_append app h (Addr i) (Addr j))) (Addr j) v)
       (fst (shared_append app h (Addr i) (Addr j))) = Some (app (h ! i) (h ! j)) \<and>
     shared_append_nested app h (Addr i) (Addr j) = shared_append app h (Addr i) (Addr j)"
  by (simp add: shared_append_def shared_append_nested_def new_def pointee_def nth_append
      nth_list_update)

theorem shared_append_fresh_and_independent_witness:
  "(0 :: nat) < length [2, 2 :: int] \<and> (1 :: nat) < length [2, 2 :: int] \<and>
   shared_append (+) [2, 2 :: int] (Addr 0) (Addr 1) = (Addr 2, [2, 2, 4]) \<and>
   pointee (shared_append (+) [2, 2 :: int] (Addr 0) (Addr 1)) = Some 4 \<and>
   deref (assign (snd (shared_append (+) [2, 2 :: int] (Addr 0) (Addr 1))) (Addr 0) 7)
     (fst (shared_append (+) [2, 2 :: int] (Addr 0) (Addr 1))) = Some 4 \<and>
   deref (assign (snd (shared_append (+) [2, 2 :: int] (Addr 0) (Addr 1))) (Addr 1) 7)
     (fst (shared_append (+) [2, 2 :: int] (Addr 0) (Addr 1))) = Some 4 \<and>
   shared_append_nested (+) [2, 2 :: int] (Addr 0) (Addr 1) = (Addr 2, [2, 2, 4])"
  using shared_append_fresh_and_independent [of 0 "[2, 2 :: int]" 1 "(+)" 7]
  by (simp add: shared_append_def new_def pointee_def)

section \<open>Folds\<close>

text \<open>
  C9. For both ownership kinds, folding an empty pointer returns the seed unchanged, in
  both directions; folding a pointer that holds \<open>x\<close> returns the single application
  \<open>fn seed x\<close>, in both directions, so \<open>foldl\<close> and \<open>foldr\<close> coincide.
\<close>

theorem folds_apply_once:
  "shared_foldl fn z h nullptr = z \<and> shared_foldr fn z h nullptr = z \<and>
   unique_foldl fn z h nullptr = z \<and> unique_foldr fn z h nullptr = z \<and>
   (deref h p = Some x \<longrightarrow>
      shared_foldl fn z h p = fn z x \<and> shared_foldr fn z h p = fn z x \<and>
      unique_foldl fn z h p = fn z x \<and> unique_foldr fn z h p = fn z x) \<and>
   shared_foldl fn z h p = shared_foldr fn z h p \<and>
   unique_foldl fn z h p = unique_foldr fn z h p"
  by (cases p)
     (simp_all add: shared_foldl_def shared_foldr_def unique_foldl_def unique_foldr_def
        split: if_splits)

theorem folds_apply_once_witness:
  "deref [2 :: int] (Addr 0) = Some 2 \<and>
   shared_foldl (+) (1 :: int) [2 :: int] (Addr 0) = 3 \<and>
   shared_foldr (+) (1 :: int) [2 :: int] (Addr 0) = 3 \<and>
   unique_foldl (+) (1 :: int) [2 :: int] (Addr 0) = 3 \<and>
   unique_foldr (+) (1 :: int) [2 :: int] (Addr 0) = 3 \<and>
   shared_foldl (+) (1 :: int) [2 :: int] nullptr = 1 \<and>
   shared_foldr (+) (1 :: int) [2 :: int] nullptr = 1"
  using folds_apply_once [of "(+)" "1 :: int" "[2 :: int]" "Addr 0" 2]
  by simp

section \<open>Choice between two pointers\<close>

text \<open>
  C6. For both ownership kinds \<open>fail\<close> is the empty pointer, and \<open>orDo a b\<close> (the
  spec's \<open>orElse\<close>) gives \<open>a\<close> if \<open>a\<close> is non-empty and \<open>b\<close> otherwise. For the shared
  kind the result is the chosen pointer itself and the heap is unchanged: a reference
  copy, no allocation. For the exclusive kind the result holds the chosen side's value
  in a freshly allocated object: its address was not in use before, so it is neither
  argument's own object, every existing object keeps its value, and the result is empty
  exactly when both sides are empty.
\<close>

theorem orDo_first_non_empty:
  "shared_fail = nullptr \<and> unique_fail = nullptr \<and>
   shared_orDo h a b = (if a \<noteq> nullptr then a else b, h) \<and>
   (live h a \<and> live h b \<longrightarrow>
      pointee (unique_orDo h a b) = (if a \<noteq> nullptr then deref h a else deref h b) \<and>
      (fst (unique_orDo h a b) = nullptr) = (a = nullptr \<and> b = nullptr) \<and>
      (fst (unique_orDo h a b) \<noteq> nullptr \<longrightarrow>
         fst (unique_orDo h a b) = Addr (length h) \<and>
         \<not> live h (fst (unique_orDo h a b)) \<and>
         fst (unique_orDo h a b) \<noteq> a \<and> fst (unique_orDo h a b) \<noteq> b) \<and>
      take (length h) (snd (unique_orDo h a b)) = h)"
  by (cases a; cases b)
     (simp_all add: shared_fail_def unique_fail_def shared_orDo_def unique_orDo_def
        dup_unique_def new_def pointee_def)

theorem orDo_first_non_empty_witness:
  "live [5, 6 :: int] (Addr 0) \<and> live [5, 6 :: int] (Addr 1) \<and> live [5, 6 :: int] nullptr \<and>
   shared_orDo [5, 6 :: int] (Addr 0) (Addr 1) = (Addr 0, [5, 6]) \<and>
   unique_orDo [5, 6 :: int] (Addr 0) (Addr 1) = (Addr 2, [5, 6, 5]) \<and>
   pointee (unique_orDo [5, 6 :: int] (Addr 0) (Addr 1)) = Some 5 \<and>
   fst (unique_orDo [5, 6 :: int] (Addr 0) (Addr 1)) \<noteq> nullptr \<and>
   unique_orDo [5, 6 :: int] nullptr (Addr 1) = (Addr 2, [5, 6, 6]) \<and>
   unique_orDo [5, 6 :: int] nullptr nullptr = (nullptr, [5, 6])"
  using orDo_first_non_empty [of "[5, 6 :: int]" "Addr 0" "Addr 1"]
    orDo_first_non_empty [of "[5, 6 :: int]" nullptr "Addr 1"]
  by (simp add: unique_orDo_def dup_unique_def new_def shared_orDo_def pointee_def)

section \<open>Map\<close>

text \<open>
  C5. For both ownership kinds, mapping over the empty pointer gives the empty pointer,
  and mapping \<open>f\<close> over a pointer holding \<open>x\<close> gives a pointer holding \<open>f x\<close>, whether
  or not \<open>f\<close> changes the pointee type. For the
  exclusive kind, when \<open>f\<close> keeps the pointee type and the argument is given by transfer,
  the existing storage is reused: the returned pointer is the argument's own address, no
  object is allocated, the only change to the heap is that this object now holds \<open>f\<close> of
  its old value, and the caller's pointer is left empty.
\<close>

theorem map_over_optional:
  "shared_map f nullptr s = (nullptr, s) \<and>
   unique_map_l mv f nullptr s = (nullptr, s) \<and>
   ret (unique_map_r mv g h nullptr) = nullptr \<and> mem (unique_map_r mv g h nullptr) = h \<and>
   (deref (fst s) p = Some x \<longrightarrow>
      deref (snd (snd (shared_map f p s))) (fst (shared_map f p s)) = Some (f x) \<and>
      deref (snd (snd (unique_map_l mv f p s))) (fst (unique_map_l mv f p s)) = Some (f x)) \<and>
   shared_map_same g nullptr h = (nullptr, h) \<and>
   unique_map_l_same mv g nullptr h = (nullptr, h) \<and>
   (deref h p = Some x \<longrightarrow>
      pointee (shared_map_same g p h) = Some (g x) \<and>
      pointee (unique_map_l_same mv g p h) = Some (g x) \<and>
      held (unique_map_r mv g h p) = Some (g x) \<and>
      ret (unique_map_r mv g h p) = p \<and>
      arg_a (unique_map_r mv g h p) = nullptr \<and>
      length (mem (unique_map_r mv g h p)) = length h \<and>
      mem (unique_map_r mv g h p) = assign h p (g x))"
  by (cases p)
     (simp_all add: shared_map_def unique_map_l_def shared_map_same_def unique_map_l_same_def
        unique_map_r_def new_def held_def pointee_def Let_def nth_append split: if_splits)

theorem map_over_optional_witness:
  "deref (fst ([3 :: int], [] :: int list)) (Addr 0) = Some 3 \<and>
   deref [3 :: int] (Addr 0) = Some 3 \<and>
   shared_map uminus (Addr 0) ([3 :: int], [] :: int list) = (Addr 0, ([3], [- 3])) \<and>
   unique_map_l id uminus (Addr 0) ([3 :: int], [] :: int list) = (Addr 0, ([3], [- 3])) \<and>
   shared_map_same uminus (Addr 0) [3 :: int] = (Addr 1, [3, - 3]) \<and>
   unique_map_l_same id uminus (Addr 0) [3 :: int] = (Addr 1, [3, - 3]) \<and>
   held (unique_map_r id uminus [3 :: int] (Addr 0)) = Some (- 3) \<and>
   ret (unique_map_r id uminus [3 :: int] (Addr 0)) = Addr 0 \<and>
   arg_a (unique_map_r id uminus [3 :: int] (Addr 0)) = nullptr \<and>
   mem (unique_map_r id uminus [3 :: int] (Addr 0)) = [- 3]"
  using map_over_optional [of uminus "([3 :: int], [] :: int list)" id uminus "[3 :: int]"
      "Addr 0" 3]
  by (simp add: shared_map_def unique_map_l_def shared_map_same_def unique_map_l_same_def
      unique_map_r_def new_def held_def)

section \<open>Bind\<close>

text \<open>
  C3. For both ownership kinds, binding the empty pointer gives the empty pointer of the
  target type and leaves the memory alone, whatever \<open>f\<close> is. Binding a pointer holding
  \<open>x\<close> is exactly the call \<open>f x\<close>: the pointer \<open>f\<close> returns and the memory \<open>f\<close> leaves
  are the result, with nothing allocated or wrapped around it, whether \<open>f\<close> returns an
  empty or a non-empty pointer. The shared kind hands \<open>f\<close> a copy of \<open>x\<close> in the
  unchanged memory; the exclusive kind moves \<open>x\<close> out, so \<open>f\<close> runs in the memory where
  the source object is in its moved-from state.
\<close>

theorem bind_passes_through:
  "shared_bind nullptr f s = (nullptr, s) \<and>
   unique_bind mv nullptr f s = (nullptr, s) \<and>
   (deref (fst s) a = Some x \<longrightarrow>
      shared_bind a f s = f x s \<and>
      unique_bind mv a f s = f x (assign (fst s) a (mv x), snd s))"
  by (cases a) (simp_all add: shared_bind_def unique_bind_def split: if_splits)

theorem bind_passes_through_witness:
  "deref (fst ([1 :: int], [] :: int list)) (Addr 0) = Some 1 \<and>
   shared_bind (Addr 0) (\<lambda>x s. (case new (snd s) (x + 1) of (r, hU) \<Rightarrow> (r, (fst s, hU))))
     ([1 :: int], [] :: int list) = (Addr 0, ([1], [2])) \<and>
   unique_bind id (Addr 0) (\<lambda>x s. (case new (snd s) (x + 1) of (r, hU) \<Rightarrow> (r, (fst s, hU))))
     ([1 :: int], [] :: int list) = (Addr 0, ([1], [2])) \<and>
   shared_bind (Addr 0) (\<lambda>x s. (nullptr, s)) ([1 :: int], [] :: int list)
     = (nullptr, ([1], [])) \<and>
   unique_bind id (Addr 0) (\<lambda>x s. (nullptr, s)) ([1 :: int], [] :: int list)
     = (nullptr, ([1], []))"
  using bind_passes_through
      [of "\<lambda>x s. (case new (snd s) (x + 1) of (r, hU) \<Rightarrow> (r, (fst s, hU)))"
          "([1 :: int], [] :: int list)" id "Addr 0" 1]
    bind_passes_through [of "\<lambda>x s. (nullptr, s)" "([1 :: int], [] :: int list)" id "Addr 0" 1]
  by (simp add: new_def)

section \<open>Join and apply, derived from bind\<close>

text \<open>
  C4. For both ownership kinds, \<open>join\<close> and \<open>apply\<close> are \<open>bind\<close>-based
  (\<open>join outer = bind outer identity\<close>,
  \<open>apply wrapped_fn wrapped_arg = bind wrapped_fn (\<lambda>fn. map fn wrapped_arg)\<close>), and
  built so from the \<open>bind\<close> and \<open>map\<close> of both instances they satisfy the truth
  tables. Join of the empty pointer is empty; join of a pointer holding an empty
  pointer is empty; join of a pointer holding a pointer that holds \<open>x\<close> holds \<open>x\<close>.
  Apply of a pointer holding \<open>f\<close> to a pointer holding \<open>x\<close> holds \<open>f x\<close>; apply with
  an empty function pointer, an empty argument pointer, or both, is empty.
\<close>

theorem join_apply_truth_tables:
  "shared_join outer (hO, hI) = shared_bind outer identity (hO, hI) \<and>
   unique_join outer (hO, hI) = unique_bind moved_from_unique outer identity (hO, hI) \<and>
   shared_apply pf pa (hF, hT, hU) =
     shared_bind pf (\<lambda>fn s'. (let (r, w) = shared_map fn pa (snd s') in (r, (fst s', w))))
       (hF, hT, hU) \<and>
   unique_apply mvF mv pf pa (hF, hT, hU) =
     unique_bind mvF pf (\<lambda>fn s'. (let (r, w) = unique_map_l mv fn pa (snd s') in (r, (fst s', w))))
       (hF, hT, hU) \<and>
   fst (shared_join nullptr (hO, hI)) = nullptr \<and>
   fst (unique_join nullptr (hO, hI)) = nullptr \<and>
   (deref hO outer = Some nullptr \<longrightarrow>
      fst (shared_join outer (hO, hI)) = nullptr \<and>
      fst (unique_join outer (hO, hI)) = nullptr) \<and>
   (deref hO outer = Some inner \<and> deref hI inner = Some x \<longrightarrow>
      deref (snd (snd (shared_join outer (hO, hI)))) (fst (shared_join outer (hO, hI))) = Some x \<and>
      deref (snd (snd (unique_join outer (hO, hI)))) (fst (unique_join outer (hO, hI))) = Some x) \<and>
   (deref hF pf = Some f \<and> deref hT pa = Some y \<longrightarrow>
      deref (snd (snd (snd (shared_apply pf pa (hF, hT, hU)))))
        (fst (shared_apply pf pa (hF, hT, hU))) = Some (f y) \<and>
      deref (snd (snd (snd (unique_apply mvF mv pf pa (hF, hT, hU)))))
        (fst (unique_apply mvF mv pf pa (hF, hT, hU))) = Some (f y)) \<and>
   (deref hF pf = Some f \<longrightarrow>
      fst (shared_apply pf nullptr (hF, hT, hU)) = nullptr \<and>
      fst (unique_apply mvF mv pf nullptr (hF, hT, hU)) = nullptr) \<and>
   fst (shared_apply nullptr pa (hF, hT, hU)) = nullptr \<and>
   fst (unique_apply mvF mv nullptr pa (hF, hT, hU)) = nullptr"
proof -
  have j0: "fst (shared_join nullptr (hO, hI)) = nullptr"
           "fst (unique_join nullptr (hO, hI)) = nullptr"
    by (simp_all add: shared_join_def unique_join_def shared_bind_def unique_bind_def)
  have j1: "fst (shared_join outer (hO, hI)) = nullptr \<and>
            fst (unique_join outer (hO, hI)) = nullptr" if "deref hO outer = Some nullptr"
    using that
    by (cases outer)
       (simp_all add: shared_join_def unique_join_def shared_bind_def unique_bind_def
          identity_def split: if_splits)
  have j2: "deref (snd (snd (shared_join outer (hO, hI)))) (fst (shared_join outer (hO, hI)))
              = Some x \<and>
            deref (snd (snd (unique_join outer (hO, hI)))) (fst (unique_join outer (hO, hI)))
              = Some x"
    if "deref hO outer = Some inner" "deref hI inner = Some x"
    using that
    by (cases outer)
       (simp_all add: shared_join_def unique_join_def shared_bind_def unique_bind_def
          identity_def split: if_splits)
  have a2: "deref (snd (snd (snd (shared_apply pf pa (hF, hT, hU)))))
              (fst (shared_apply pf pa (hF, hT, hU))) = Some (f y) \<and>
            deref (snd (snd (snd (unique_apply mvF mv pf pa (hF, hT, hU)))))
              (fst (unique_apply mvF mv pf pa (hF, hT, hU))) = Some (f y)"
    if "deref hF pf = Some f" "deref hT pa = Some y"
    using that
    by (cases pf; cases pa)
       (simp_all add: shared_apply_def unique_apply_def shared_bind_def unique_bind_def
          shared_map_def unique_map_l_def new_def split: if_splits)
  have a1: "fst (shared_apply pf nullptr (hF, hT, hU)) = nullptr \<and>
            fst (unique_apply mvF mv pf nullptr (hF, hT, hU)) = nullptr"
    by (simp add: shared_apply_def unique_apply_def shared_bind_def unique_bind_def
          shared_map_def unique_map_l_def)
  have a0: "fst (shared_apply nullptr pa (hF, hT, hU)) = nullptr"
           "fst (unique_apply mvF mv nullptr pa (hF, hT, hU)) = nullptr"
    by (simp_all add: shared_apply_def unique_apply_def shared_bind_def unique_bind_def)
  have d: "shared_join outer (hO, hI) = shared_bind outer identity (hO, hI)"
           "unique_join outer (hO, hI) = unique_bind moved_from_unique outer identity (hO, hI)"
    by (simp_all add: shared_join_def unique_join_def)
  have e: "shared_apply pf pa (hF, hT, hU) =
      shared_bind pf (\<lambda>fn s'. (let (r, w) = shared_map fn pa (snd s') in (r, (fst s', w))))
        (hF, hT, hU)"
    "unique_apply mvF mv pf pa (hF, hT, hU) =
      unique_bind mvF pf (\<lambda>fn s'. (let (r, w) = unique_map_l mv fn pa (snd s') in (r, (fst s', w))))
        (hF, hT, hU)"
    by (simp_all add: shared_apply_def unique_apply_def)
  show ?thesis
    using d e j0 j1 j2 a2 a1 a0 by blast
qed

theorem join_apply_truth_tables_witness:
  "deref [Addr 0, nullptr] (Addr 1) = Some nullptr \<and>
   deref [Addr 0, nullptr] (Addr 0) = Some (Addr 0) \<and> deref [7 :: int] (Addr 0) = Some 7 \<and>
   deref [(-) (2 :: int)] (Addr 0) = Some ((-) 2) \<and> deref [3 :: int] (Addr 0) = Some 3 \<and>
   fst (shared_join (Addr 1) ([Addr 0, nullptr], [7 :: int])) = nullptr \<and>
   fst (unique_join (Addr 1) ([Addr 0, nullptr], [7 :: int])) = nullptr \<and>
   shared_join (Addr 0) ([Addr 0, nullptr], [7 :: int]) = (Addr 0, ([Addr 0, nullptr], [7])) \<and>
   unique_join (Addr 0) ([Addr 0, nullptr], [7 :: int]) = (Addr 0, ([nullptr, nullptr], [7])) \<and>
   deref (snd (snd (snd (shared_apply (Addr 0) (Addr 0) ([(-) (2 :: int)], [3], [])))))
     (fst (shared_apply (Addr 0) (Addr 0) ([(-) (2 :: int)], [3], []))) = Some (- 1) \<and>
   deref (snd (snd (snd (unique_apply id id (Addr 0) (Addr 0) ([(-) (2 :: int)], [3], [])))))
     (fst (unique_apply id id (Addr 0) (Addr 0) ([(-) (2 :: int)], [3], []))) = Some (- 1) \<and>
   fst (shared_apply (Addr 0) nullptr ([(-) (2 :: int)], [3 :: int], [] :: int list)) = nullptr \<and>
   fst (unique_apply id id (Addr 0) nullptr ([(-) (2 :: int)], [3 :: int], [] :: int list)) = nullptr"
  using join_apply_truth_tables [of "Addr 1" "[Addr 0, nullptr]" "[7 :: int]"]
    join_apply_truth_tables [of "Addr 0" "[Addr 0, nullptr]" "[7 :: int]" "Addr 0" "Addr 0"
      "[(-) (2 :: int)]" "[3 :: int]" "[]" id id "Addr 0" 7 "(-) 2" 3]
  by (simp add: shared_join_def unique_join_def shared_apply_def unique_apply_def
      shared_bind_def unique_bind_def shared_map_def unique_map_l_def new_def identity_def
      moved_from_unique_def)

section \<open>What a call leaves in its arguments\<close>




end
